theory Spec2Isabelle
  imports Main "HOL-Library.Multiset"
begin

section \<open>Sample handles\<close>

text \<open>
  The pool stores values of the C++ type \<^verbatim>\<open>Sample*\<close>. The pool code never
  dereferences such a pointer; the only thing it ever does with one is to compare it with
  \<^verbatim>\<open>nullptr\<close>. A handle is therefore modelled by its address, and the null pointer by
  address 0.
\<close>

type_synonym Sample_ptr = nat

definition nullptr :: Sample_ptr where
  "nullptr = 0"

section \<open>The queue behind the pool\<close>

text \<open>
  Modelled from the spec: the class \<^verbatim>\<open>moodycamel::ConcurrentQueue<Sample*>\<close> of
  \<^verbatim>\<open>vendored/concurrentqueue.h\<close>, which the pool includes and whose source is not part of
  the files at hand. The specification describes it as the pool's internal store, a
  multi-producer multi-consumer collection of handles that supports insertion and
  non-blocking removal, reports its occupancy, and promises no FIFO or other reuse order.

  Used by one thread, the store is a finite sequence of handles. Its three operations that
  the pool calls are:
  \<^item> \<^verbatim>\<open>size_approx()\<close>: the number of stored handles (exact when nothing runs
    concurrently);
  \<^item> \<^verbatim>\<open>enqueue(item)\<close>: stores the handle and answers \<^verbatim>\<open>true\<close>;
  \<^item> \<^verbatim>\<open>try_dequeue(item)\<close>: on an empty store answers \<^verbatim>\<open>false\<close> and leaves the
    reference argument \<^verbatim>\<open>item\<close> as it was; otherwise it removes one stored handle, writes
    it to \<^verbatim>\<open>item\<close> and answers \<^verbatim>\<open>true\<close>.

  Since no removal order is promised, \<open>try_dequeue\<close> takes one more argument \<open>k\<close> that
  selects which of the stored handles is removed (position \<open>k mod n\<close> of \<open>n\<close> stored
  handles). With \<open>k = 0\<close> the store is first-in first-out. Every theorem below holds for
  every selection.
\<close>

type_synonym ConcurrentQueue = "Sample_ptr list"

definition size_approx :: "ConcurrentQueue \<Rightarrow> nat" where
  "size_approx q = length q"

definition enqueue :: "ConcurrentQueue \<Rightarrow> Sample_ptr \<Rightarrow> bool \<times> ConcurrentQueue" where
  "enqueue q item = (True, q @ [item])"

definition try_dequeue ::
  "nat \<Rightarrow> ConcurrentQueue \<Rightarrow> Sample_ptr \<Rightarrow> bool \<times> Sample_ptr \<times> ConcurrentQueue" where
  "try_dequeue k q item =
     (if q = [] then (False, item, q)
      else (let i = k mod length q
            in (True, q ! i, take i q @ drop (Suc i) q)))"

section \<open>The pool\<close>

text \<open>
  \<^verbatim>\<open>class SynchronizedSamplePool\<close> has the two private members \<^verbatim>\<open>pool\<close> and
  \<^verbatim>\<open>capacity\<close>. The capacity is a \<^verbatim>\<open>size_t\<close> that is only ever compared with the
  occupancy, never computed with, so a natural number models it.
\<close>

record SynchronizedSamplePool =
  pool :: ConcurrentQueue
  capacity :: nat

text \<open>
  The constructor stores the capacity and replaces the queue by a fresh, empty one (the
  queue's constructor argument only reserves room).
\<close>

definition new_SynchronizedSamplePool :: "nat \<Rightarrow> SynchronizedSamplePool" where
  "new_SynchronizedSamplePool cap = \<lparr>pool = [], capacity = cap\<rparr>"

text \<open>
  \<^verbatim>\<open>take_sample\<close>: a local \<^verbatim>\<open>sample\<close> starts as \<^verbatim>\<open>nullptr\<close>, \<^verbatim>\<open>try_dequeue\<close>
  may overwrite it, its boolean answer is dropped, and the result is decided by comparing
  \<^verbatim>\<open>sample\<close> with \<^verbatim>\<open>nullptr\<close>. The function returns the optional and the pool as the
  call leaves it.
\<close>

definition take_sample ::
  "nat \<Rightarrow> SynchronizedSamplePool \<Rightarrow> Sample_ptr option \<times> SynchronizedSamplePool" where
  "take_sample k p =
     (let sample0 = nullptr;
          (ok, sample, q) = try_dequeue k (pool p) sample0;
          p' = p\<lparr>pool := q\<rparr>
      in if sample = nullptr then (None, p') else (Some sample, p'))"

text \<open>
  \<^verbatim>\<open>return_sample\<close>: when the occupancy has reached the capacity the sample goes back to
  the caller and the pool is not touched; otherwise the sample is enqueued (the answer of
  \<^verbatim>\<open>enqueue\<close> is dropped) and \<^verbatim>\<open>std::nullopt\<close> is returned.
\<close>

definition return_sample ::
  "Sample_ptr \<Rightarrow> SynchronizedSamplePool \<Rightarrow> Sample_ptr option \<times> SynchronizedSamplePool" where
  "return_sample sample p =
     (if size_approx (pool p) \<ge> capacity p then (Some sample, p)
      else (let (ok, q) = enqueue (pool p) sample
            in (None, p\<lparr>pool := q\<rparr>)))"

section \<open>Sequences of calls made by one thread\<close>

datatype pool_call = Take nat | Return Sample_ptr

fun call :: "pool_call \<Rightarrow> SynchronizedSamplePool \<Rightarrow> Sample_ptr option \<times> SynchronizedSamplePool" where
  "call (Take k) p = take_sample k p"
| "call (Return sample) p = return_sample sample p"

text \<open>The pool after a sequence of calls, and the results the calls gave, in order.\<close>

fun run :: "SynchronizedSamplePool \<Rightarrow> pool_call list \<Rightarrow> SynchronizedSamplePool" where
  "run p [] = p"
| "run p (c # cs) = run (snd (call c p)) cs"

fun results :: "SynchronizedSamplePool \<Rightarrow> pool_call list \<Rightarrow> Sample_ptr option list" where
  "results p [] = []"
| "results p (c # cs) = fst (call c p) # results (snd (call c p)) cs"

section \<open>Basic facts about the two operations\<close>

lemma return_sample_full:
  "capacity p \<le> length (pool p) \<Longrightarrow> return_sample sample p = (Some sample, p)"
  by (simp add: return_sample_def size_approx_def)

lemma return_sample_room:
  "length (pool p) < capacity p \<Longrightarrow>
     return_sample sample p = (None, p\<lparr>pool := pool p @ [sample]\<rparr>)"
  by (simp add: return_sample_def size_approx_def enqueue_def)

lemma take_sample_empty:
  "pool p = [] \<Longrightarrow> take_sample k p = (None, p)"
  by (simp add: take_sample_def try_dequeue_def)

lemma take_sample_nonempty:
  "pool p \<noteq> [] \<Longrightarrow>
     take_sample k p =
       (if pool p ! (k mod length (pool p)) = nullptr then None
        else Some (pool p ! (k mod length (pool p))),
        p\<lparr>pool := take (k mod length (pool p)) (pool p)
                   @ drop (Suc (k mod length (pool p))) (pool p)\<rparr>)"
  by (simp add: take_sample_def try_dequeue_def Let_def)

lemma capacity_call: "capacity (snd (call c p)) = capacity p"
proof (cases c)
  case (Take k)
  then show ?thesis
    by (cases "pool p = []") (simp_all add: take_sample_empty take_sample_nonempty)
next
  case (Return sample)
  then show ?thesis
    by (cases "length (pool p) < capacity p")
       (simp_all add: return_sample_room return_sample_full)
qed

lemma length_removed:
  "q \<noteq> [] \<Longrightarrow>
     Suc (length (take (k mod length q) q @ drop (Suc (k mod length q)) q)) = length q"
proof -
  assume "q \<noteq> []"
  then have "k mod length q < length q" by simp
  then show ?thesis by simp
qed

lemma length_take_sample:
  "length (pool (snd (take_sample k p))) = length (pool p) - 1"
proof (cases "pool p = []")
  case True
  then show ?thesis by (simp add: take_sample_empty)
next
  case False
  from length_removed [OF False, of k] show ?thesis
    by (simp add: take_sample_nonempty [OF False])
qed

lemma length_call:
  assumes "length (pool p) \<le> capacity p"
  shows "length (pool (snd (call c p))) \<le> capacity p"
proof (cases c)
  case (Take k)
  with assms show ?thesis by (simp add: length_take_sample)
next
  case (Return sample)
  with assms show ?thesis
    by (cases "length (pool p) < capacity p")
       (simp_all add: return_sample_room return_sample_full)
qed

lemma call_invariant:
  assumes "length (pool p) \<le> capacity p"
  shows "length (pool (run p cs)) \<le> capacity p \<and> capacity (run p cs) = capacity p"
  using assms
proof (induction cs arbitrary: p)
  case Nil
  then show ?case by simp
next
  case (Cons c cs)
  let ?p' = "snd (call c p)"
  from Cons.prems have "length (pool ?p') \<le> capacity ?p'"
    by (simp add: length_call capacity_call)
  from Cons.IH [OF this] show ?case
    by (simp add: capacity_call)
qed

lemma new_pool_fields:
  "pool (new_SynchronizedSamplePool cap) = []"
  "capacity (new_SynchronizedSamplePool cap) = cap"
  by (simp_all add: new_SynchronizedSamplePool_def)

lemma call_zero_capacity:
  assumes "capacity p = 0" and "pool p = []"
  shows "call c p = (case c of Take k \<Rightarrow> None | Return sample \<Rightarrow> Some sample, p)"
proof (cases c)
  case (Take k)
  with assms show ?thesis by (simp add: take_sample_empty)
next
  case (Return sample)
  with assms show ?thesis by (simp add: return_sample_full)
qed

lemma run_zero_capacity:
  assumes "capacity p = 0" and "pool p = []"
  shows "run p cs = p"
    and "results p cs = map (\<lambda>c. case c of Take k \<Rightarrow> None | Return sample \<Rightarrow> Some sample) cs"
  using assms by (induction cs) (simp_all add: call_zero_capacity)

section \<open>The scenario of the specification\<close>

text \<open>
  C1, as amended. A pool of capacity 2 is created and used by one thread, and \<open>A\<close> and
  \<open>B\<close> are handles other than the null pointer. Returning \<open>A\<close> and then \<open>B\<close> succeeds both
  times (no handle comes back) and the pool then holds exactly \<open>A\<close> and \<open>B\<close>. Returning
  any \<open>C\<close> is rejected: \<open>C\<close> comes back and the pool is as before. The first take gives
  \<open>A\<close> or \<open>B\<close> and leaves one handle, the second take gives the other one and leaves the
  pool empty, the third take reports empty. This holds whichever stored handle the store
  chooses to hand out at each take (\<open>k1\<close>, \<open>k2\<close>, \<open>k3\<close>).
\<close>

theorem scenario_capacity_two:
  assumes "A \<noteq> nullptr" and "B \<noteq> nullptr"
  shows "results (new_SynchronizedSamplePool 2) [Return A, Return B] = [None, None]
       \<and> mset (pool (run (new_SynchronizedSamplePool 2) [Return A])) = {#A#}
       \<and> mset (pool (run (new_SynchronizedSamplePool 2) [Return A, Return B])) = {#A, B#}
       \<and> return_sample C (run (new_SynchronizedSamplePool 2) [Return A, Return B])
           = (Some C, run (new_SynchronizedSamplePool 2) [Return A, Return B])
       \<and> (results (new_SynchronizedSamplePool 2)
             [Return A, Return B, Return C, Take k1, Take k2, Take k3]
             = [None, None, Some C, Some A, Some B, None]
          \<or> results (new_SynchronizedSamplePool 2)
             [Return A, Return B, Return C, Take k1, Take k2, Take k3]
             = [None, None, Some C, Some B, Some A, None])
       \<and> length (pool (run (new_SynchronizedSamplePool 2)
             [Return A, Return B, Return C, Take k1])) = 1
       \<and> pool (run (new_SynchronizedSamplePool 2)
             [Return A, Return B, Return C, Take k1, Take k2]) = []
       \<and> pool (run (new_SynchronizedSamplePool 2)
             [Return A, Return B, Return C, Take k1, Take k2, Take k3]) = []"
proof -
  let ?p0 = "new_SynchronizedSamplePool 2"
  let ?p1 = "\<lparr>pool = [A], capacity = 2\<rparr>"
  let ?p2 = "\<lparr>pool = [A, B], capacity = 2\<rparr>"
  let ?e = "\<lparr>pool = [], capacity = 2\<rparr>"
  have a: "return_sample A ?p0 = (None, ?p1)"
    by (simp add: return_sample_room new_SynchronizedSamplePool_def)
  have b: "return_sample B ?p1 = (None, ?p2)"
    by (simp add: return_sample_room)
  have c: "return_sample C ?p2 = (Some C, ?p2)"
    by (simp add: return_sample_full)
  have t1: "take_sample k \<lparr>pool = [x], capacity = 2\<rparr> = (Some x, ?e)" if "x \<noteq> nullptr" for k x
    using that by (simp add: take_sample_nonempty)
  have t0: "take_sample k ?e = (None, ?e)" for k
    by (simp add: take_sample_empty)
  have "k1 mod Suc (Suc 0) < Suc (Suc 0)"
    by (rule mod_less_divisor) simp
  then consider "k1 mod Suc (Suc 0) = 0" | "k1 mod Suc (Suc 0) = Suc 0"
    by (auto simp: less_Suc_eq)
  then show ?thesis
  proof cases
    case 1
    then have "take_sample k1 ?p2 = (Some A, \<lparr>pool = [B], capacity = 2\<rparr>)"
      using assms by (simp add: take_sample_nonempty)
    with a b c t0 t1 assms show ?thesis by simp
  next
    case 2
    then have "take_sample k1 ?p2 = (Some B, \<lparr>pool = [A], capacity = 2\<rparr>)"
      using assms by (simp add: take_sample_nonempty)
    with a b c t0 t1 assms show ?thesis by simp
  qed
qed

theorem scenario_capacity_two_witness:
  "(1::nat) \<noteq> nullptr \<and> (2::nat) \<noteq> nullptr
   \<and> results (new_SynchronizedSamplePool 2) [Return 1, Return 2, Return 3, Take 0, Take 0, Take 0]
       = [None, None, Some 3, Some 1, Some 2, None]
   \<and> mset (pool (run (new_SynchronizedSamplePool 2) [Return 1, Return 2])) = {#1, 2#}
   \<and> return_sample 3 (run (new_SynchronizedSamplePool 2) [Return 1, Return 2])
       = (Some 3, run (new_SynchronizedSamplePool 2) [Return 1, Return 2])
   \<and> pool (run (new_SynchronizedSamplePool 2)
        [Return 1, Return 2, Return 3, Take 0, Take 0]) = []"
proof -
  have n: "(1::nat) \<noteq> nullptr" "(2::nat) \<noteq> nullptr"
    by (simp_all add: nullptr_def)
  have e: "results (new_SynchronizedSamplePool 2)
             [Return 1, Return 2, Return 3, Take 0, Take 0, Take 0]
           = [None, None, Some 3, Some 1, Some 2, None]"
    by (simp add: new_SynchronizedSamplePool_def return_sample_def take_sample_def
          size_approx_def enqueue_def try_dequeue_def nullptr_def)
  from scenario_capacity_two [OF n, of 3 0 0 0] n e show ?thesis
    by blast
qed

text \<open>
  C1 as stated puts no condition on the handles. With the null pointer as \<open>A\<close> it fails:
  both returns succeed and the third is rejected, but the first take removes the stored
  null pointer and reports empty, giving neither \<open>A\<close> nor \<open>B\<close>, while \<open>B\<close> is still in
  the pool; the second take gives \<open>B\<close>.
\<close>

theorem scenario_capacity_two_counterexample:
  "results (new_SynchronizedSamplePool 2)
     [Return nullptr, Return 5, Return 7, Take 0, Take 0, Take 0]
     = [None, None, Some 7, None, Some 5, None]
   \<and> fst (take_sample 0 (run (new_SynchronizedSamplePool 2)
        [Return nullptr, Return 5, Return 7])) \<noteq> Some nullptr
   \<and> fst (take_sample 0 (run (new_SynchronizedSamplePool 2)
        [Return nullptr, Return 5, Return 7])) \<noteq> Some 5
   \<and> pool (run (new_SynchronizedSamplePool 2)
        [Return nullptr, Return 5, Return 7, Take 0]) = [5]"
  by (simp add: new_SynchronizedSamplePool_def return_sample_def take_sample_def
        size_approx_def enqueue_def try_dequeue_def nullptr_def)

section \<open>Returning a handle\<close>

text \<open>
  C3. When the pool already holds at least as many handles as its capacity allows,
  \<open>return_sample\<close> hands back exactly the handle it was given and the pool (its stored
  handles and its capacity) is exactly as it was before the call; in particular the
  handle has not been added to the store.
\<close>

theorem return_sample_rejects_at_capacity:
  assumes "capacity p \<le> length (pool p)"
  shows "fst (return_sample h p) = Some h
       \<and> snd (return_sample h p) = p
       \<and> pool (snd (return_sample h p)) = pool p
       \<and> mset (pool (snd (return_sample h p))) = mset (pool p)"
  using assms by (simp add: return_sample_full)

theorem return_sample_rejects_at_capacity_witness:
  "capacity \<lparr>pool = [5, 6], capacity = 2\<rparr> \<le> length (pool \<lparr>pool = [5, 6], capacity = 2\<rparr>)
   \<and> fst (return_sample 7 \<lparr>pool = [5, 6], capacity = 2\<rparr>) = Some 7
   \<and> snd (return_sample 7 \<lparr>pool = [5, 6], capacity = 2\<rparr>) = \<lparr>pool = [5, 6], capacity = 2\<rparr>"
proof -
  have h: "capacity \<lparr>pool = [5, 6], capacity = 2\<rparr> \<le> length (pool \<lparr>pool = [5, 6], capacity = 2\<rparr>)"
    by simp
  from return_sample_rejects_at_capacity [OF h, of 7] h show ?thesis
    by blast
qed

text \<open>
  C4. When the pool holds fewer handles than its capacity, \<open>return_sample\<close> answers with
  the empty optional (nothing comes back to the caller) and stores the handle: the store
  afterwards is the old store with one more occurrence of the handle, so the occupancy has
  grown by one and the handle is among the stored ones. The capacity is unchanged.
\<close>

theorem return_sample_accepts_below_capacity:
  assumes "length (pool p) < capacity p"
  shows "fst (return_sample h p) = None
       \<and> mset (pool (snd (return_sample h p))) = add_mset h (mset (pool p))
       \<and> length (pool (snd (return_sample h p))) = length (pool p) + 1
       \<and> h \<in> set (pool (snd (return_sample h p)))
       \<and> capacity (snd (return_sample h p)) = capacity p"
  using assms by (simp add: return_sample_room)

theorem return_sample_accepts_below_capacity_witness:
  "length (pool \<lparr>pool = [5], capacity = 2\<rparr>) < capacity \<lparr>pool = [5], capacity = 2\<rparr>
   \<and> fst (return_sample 7 \<lparr>pool = [5], capacity = 2\<rparr>) = None
   \<and> mset (pool (snd (return_sample 7 \<lparr>pool = [5], capacity = 2\<rparr>)))
       = add_mset 7 (mset (pool \<lparr>pool = [5], capacity = 2\<rparr>))
   \<and> length (pool (snd (return_sample 7 \<lparr>pool = [5], capacity = 2\<rparr>)))
       = length (pool \<lparr>pool = [5], capacity = 2\<rparr>) + 1"
proof -
  have h: "length (pool \<lparr>pool = [5], capacity = 2\<rparr>) < capacity \<lparr>pool = [5], capacity = 2\<rparr>"
    by simp
  from return_sample_accepts_below_capacity [OF h, of 7] h show ?thesis
    by blast
qed

section \<open>Taking a handle\<close>

text \<open>
  C5. On a pool that stores no handle, \<open>take_sample\<close> gives the empty optional, hence no
  handle at all (neither a made-up one nor the null pointer wrapped as a handle), and the
  pool after the call is the pool before it.
\<close>

theorem take_sample_on_empty_pool:
  assumes "pool p = []"
  shows "fst (take_sample k p) = None
       \<and> fst (take_sample k p) \<noteq> Some nullptr
       \<and> snd (take_sample k p) = p"
  using assms by (simp add: take_sample_empty)

theorem take_sample_on_empty_pool_witness:
  "pool (new_SynchronizedSamplePool 3) = []
   \<and> fst (take_sample 0 (new_SynchronizedSamplePool 3)) = None
   \<and> snd (take_sample 0 (new_SynchronizedSamplePool 3)) = new_SynchronizedSamplePool 3"
proof -
  have h: "pool (new_SynchronizedSamplePool 3) = []"
    by (simp add: new_pool_fields)
  from take_sample_on_empty_pool [OF h, of 0] h show ?thesis
    by blast
qed

text \<open>
  C2, as amended. For every handle \<open>h\<close> other than the null pointer: on a pool that stores
  nothing and whose capacity is at least 1, \<open>return_sample h\<close> answers with the empty
  optional, and a \<open>take_sample\<close> that follows at once gives exactly \<open>h\<close> and leaves the pool
  as it was before the two calls.
\<close>

theorem round_trip_reuse:
  assumes "h \<noteq> nullptr" and "pool p = []" and "1 \<le> capacity p"
  shows "fst (return_sample h p) = None
       \<and> take_sample k (snd (return_sample h p)) = (Some h, p)"
proof -
  from assms have r: "return_sample h p = (None, p\<lparr>pool := [h]\<rparr>)"
    by (simp add: return_sample_room)
  have "take_sample k (p\<lparr>pool := [h]\<rparr>) = (Some h, p\<lparr>pool := []\<rparr>)"
    using assms(1) by (simp add: take_sample_nonempty)
  moreover from assms(2) have "p\<lparr>pool := []\<rparr> = p"
    by simp
  ultimately show ?thesis
    using r by simp
qed

theorem round_trip_reuse_witness:
  "(7::nat) \<noteq> nullptr \<and> pool (new_SynchronizedSamplePool 1) = []
   \<and> 1 \<le> capacity (new_SynchronizedSamplePool 1)
   \<and> fst (return_sample 7 (new_SynchronizedSamplePool 1)) = None
   \<and> take_sample 0 (snd (return_sample 7 (new_SynchronizedSamplePool 1)))
       = (Some 7, new_SynchronizedSamplePool 1)"
proof -
  have h: "(7::nat) \<noteq> nullptr" "pool (new_SynchronizedSamplePool 1) = []"
    "1 \<le> capacity (new_SynchronizedSamplePool 1)"
    by (simp_all add: nullptr_def new_pool_fields)
  from round_trip_reuse [OF h, of 0] h show ?thesis
    by blast
qed

text \<open>
  C2 as stated speaks of every handle. For the null pointer it fails: on a fresh pool of
  capacity 1 the return succeeds, but the take that follows reports empty instead of
  giving the handle back.
\<close>

theorem round_trip_reuse_counterexample:
  "pool (new_SynchronizedSamplePool 1) = []
   \<and> 1 \<le> capacity (new_SynchronizedSamplePool 1)
   \<and> fst (return_sample nullptr (new_SynchronizedSamplePool 1)) = None
   \<and> fst (take_sample 0 (snd (return_sample nullptr (new_SynchronizedSamplePool 1)))) = None
   \<and> fst (take_sample 0 (snd (return_sample nullptr (new_SynchronizedSamplePool 1))))
       \<noteq> Some nullptr"
  by (simp add: new_SynchronizedSamplePool_def return_sample_def take_sample_def
        size_approx_def enqueue_def try_dequeue_def)

section \<open>The bound on what the pool retains\<close>

text \<open>
  C6. Let one thread make any sequence \<open>cs\<close> of \<open>take_sample\<close> and \<open>return_sample\<close>
  calls on a pool created with capacity \<open>C\<close>. After every prefix of the sequence (its first
  \<open>n\<close> calls, for any \<open>n\<close>) the pool stores at most \<open>C\<close> handles. Moreover each single call
  keeps the bound: made on any pool that stores no more handles than its capacity, it
  leaves a pool that stores no more handles than its capacity, and the capacity is the
  same as before.
\<close>

theorem bounded_retention:
  "length (pool (run (new_SynchronizedSamplePool C) (take n cs))) \<le> C
   \<and> (length (pool p) \<le> capacity p \<longrightarrow>
        length (pool (snd (call c p))) \<le> capacity (snd (call c p))
        \<and> capacity (snd (call c p)) = capacity p)"
proof -
  let ?p0 = "new_SynchronizedSamplePool C"
  have "length (pool ?p0) \<le> capacity ?p0"
    by (simp add: new_pool_fields)
  from call_invariant [OF this, of "take n cs"]
  have "length (pool (run ?p0 (take n cs))) \<le> C"
    by (simp add: new_pool_fields)
  then show ?thesis
    by (simp add: length_call capacity_call)
qed

theorem bounded_retention_witness:
  "length (pool (run (new_SynchronizedSamplePool 2)
      (take 3 [Return 5, Return 6, Return 7, Take 0]))) \<le> 2
   \<and> pool (run (new_SynchronizedSamplePool 2)
      (take 3 [Return 5, Return 6, Return 7, Take 0])) = [5, 6]
   \<and> length (pool \<lparr>pool = [5, 6], capacity = 2\<rparr>) \<le> capacity \<lparr>pool = [5, 6], capacity = 2\<rparr>
   \<and> length (pool (snd (call (Return 7) \<lparr>pool = [5, 6], capacity = 2\<rparr>)))
       \<le> capacity (snd (call (Return 7) \<lparr>pool = [5, 6], capacity = 2\<rparr>))
   \<and> capacity (snd (call (Return 7) \<lparr>pool = [5, 6], capacity = 2\<rparr>)) = 2"
proof -
  have h: "length (pool \<lparr>pool = [5, 6], capacity = 2\<rparr>) \<le> capacity \<lparr>pool = [5, 6], capacity = 2\<rparr>"
    by simp
  have e: "pool (run (new_SynchronizedSamplePool 2)
      (take 3 [Return 5, Return 6, Return 7, Take 0])) = [5, 6]"
    by (simp add: new_SynchronizedSamplePool_def return_sample_def size_approx_def enqueue_def)
  have c: "capacity \<lparr>pool = [5, 6], capacity = 2\<rparr> = 2"
    by simp
  from bounded_retention [of 2 3 "[Return 5, Return 6, Return 7, Take 0]"
      "\<lparr>pool = [5, 6], capacity = 2\<rparr>" "Return 7"] h e c
  show ?thesis
    by metis
qed

text \<open>
  C9. A pool created with capacity 0 never stores anything. After any sequence of calls
  by one thread it is still the pool as created, with an empty store; every
  \<open>return_sample h\<close> of the sequence came back with \<open>h\<close> and every \<open>take_sample\<close> of the
  sequence reported empty; and the same is true of whichever call is made next.
\<close>

theorem zero_capacity_pool:
  "run (new_SynchronizedSamplePool 0) cs = new_SynchronizedSamplePool 0
   \<and> pool (run (new_SynchronizedSamplePool 0) cs) = []
   \<and> results (new_SynchronizedSamplePool 0) cs
       = map (\<lambda>c. case c of Take k \<Rightarrow> None | Return h \<Rightarrow> Some h) cs
   \<and> return_sample h (run (new_SynchronizedSamplePool 0) cs)
       = (Some h, run (new_SynchronizedSamplePool 0) cs)
   \<and> take_sample k (run (new_SynchronizedSamplePool 0) cs)
       = (None, run (new_SynchronizedSamplePool 0) cs)"
proof -
  let ?p0 = "new_SynchronizedSamplePool 0"
  have z: "capacity ?p0 = 0" "pool ?p0 = []"
    by (simp_all add: new_pool_fields)
  have r: "run ?p0 cs = ?p0"
    by (rule run_zero_capacity(1) [OF z])
  have s: "results ?p0 cs = map (\<lambda>c. case c of Take k \<Rightarrow> None | Return h \<Rightarrow> Some h) cs"
    by (rule run_zero_capacity(2) [OF z])
  have "return_sample h ?p0 = (Some h, ?p0)"
    by (simp add: return_sample_full z)
  moreover have "take_sample k ?p0 = (None, ?p0)"
    by (simp add: take_sample_empty z)
  ultimately show ?thesis
    using r s z by simp
qed

section \<open>The null pointer as a handle\<close>

text \<open>
  C10. \<open>return_sample\<close> does not look at its argument. Given the null pointer and a pool
  below capacity, it answers with the empty optional, as for any accepted handle, and the
  null pointer is stored. When a later \<open>take_sample\<close> removes a stored null pointer from
  any pool \<open>q\<close> (the selected entry is the null pointer), it reports empty although the
  store has lost that entry. In particular, returning the null pointer to an empty pool
  and taking at once reports empty and leaves the pool empty: the entry is gone and no
  call ever gave it out.
\<close>

theorem null_handle_anomaly:
  assumes "length (pool p) < capacity p"
  shows "fst (return_sample nullptr p) = None
       \<and> pool (snd (return_sample nullptr p)) = pool p @ [nullptr]
       \<and> (pool q \<noteq> [] \<and> pool q ! (k mod length (pool q)) = nullptr \<longrightarrow>
            fst (take_sample k q) = None
            \<and> length (pool (snd (take_sample k q))) + 1 = length (pool q)
            \<and> mset (pool q) = add_mset nullptr (mset (pool (snd (take_sample k q)))))
       \<and> (pool p = [] \<longrightarrow>
            take_sample k (snd (return_sample nullptr p)) = (None, p)
            \<and> fst (take_sample k (snd (return_sample nullptr p))) \<noteq> Some nullptr)"
proof -
  from assms have r: "return_sample nullptr p = (None, p\<lparr>pool := pool p @ [nullptr]\<rparr>)"
    by (rule return_sample_room)
  have t: "fst (take_sample k q) = None
         \<and> length (pool (snd (take_sample k q))) + 1 = length (pool q)
         \<and> mset (pool q) = add_mset nullptr (mset (pool (snd (take_sample k q))))"
    if ne: "pool q \<noteq> []" and nl: "pool q ! (k mod length (pool q)) = nullptr"
  proof -
    let ?i = "k mod length (pool q)"
    from ne have i: "?i < length (pool q)"
      by simp
    have "pool q = take ?i (pool q) @ pool q ! ?i # drop (Suc ?i) (pool q)"
      using i by (rule id_take_nth_drop)
    then have "mset (pool q)
        = mset (take ?i (pool q) @ pool q ! ?i # drop (Suc ?i) (pool q))"
      by simp
    then have m: "mset (pool q)
        = add_mset nullptr (mset (take ?i (pool q) @ drop (Suc ?i) (pool q)))"
      using nl by simp
    from length_removed [OF ne, of k] m nl show ?thesis
      by (simp add: take_sample_nonempty [OF ne])
  qed
  have e: "take_sample k (snd (return_sample nullptr p)) = (None, p)" if "pool p = []"
  proof -
    from that have "p\<lparr>pool := []\<rparr> = p"
      by simp
    with that r show ?thesis
      by (simp add: take_sample_nonempty)
  qed
  from r t e show ?thesis
    by simp
qed

theorem null_handle_anomaly_witness:
  "length (pool (new_SynchronizedSamplePool 2)) < capacity (new_SynchronizedSamplePool 2)
   \<and> fst (return_sample nullptr (new_SynchronizedSamplePool 2)) = None
   \<and> pool (snd (return_sample nullptr (new_SynchronizedSamplePool 2))) = [nullptr]
   \<and> pool \<lparr>pool = [7, nullptr], capacity = 2\<rparr> \<noteq> []
   \<and> pool \<lparr>pool = [7, nullptr], capacity = 2\<rparr>
        ! (1 mod length (pool \<lparr>pool = [7, nullptr], capacity = 2\<rparr>)) = nullptr
   \<and> fst (take_sample 1 \<lparr>pool = [7, nullptr], capacity = 2\<rparr>) = None
   \<and> pool (snd (take_sample 1 \<lparr>pool = [7, nullptr], capacity = 2\<rparr>)) = [7]
   \<and> take_sample 1 (snd (return_sample nullptr (new_SynchronizedSamplePool 2)))
       = (None, new_SynchronizedSamplePool 2)"
proof -
  let ?p = "new_SynchronizedSamplePool 2"
  let ?q = "\<lparr>pool = [7, nullptr], capacity = 2\<rparr>"
  have h: "length (pool ?p) < capacity ?p"
    by (simp add: new_pool_fields)
  have e: "pool ?p = []"
    by (simp add: new_pool_fields)
  have q: "pool ?q \<noteq> []" "pool ?q ! (1 mod length (pool ?q)) = nullptr"
    by simp_all
  have s: "pool (snd (take_sample 1 ?q)) = [7]"
    by (simp add: take_sample_def try_dequeue_def)
  from null_handle_anomaly [OF h, of ?q 1] h e q s show ?thesis
    by simp
qed

end
